theory Spec2Isabelle
  imports Main
begin

section \<open>The LG NetCast client (pylgnetcast.py) as HOL functions\<close>

text \<open>
  The module talks to a television over HTTP with XML bodies. Two libraries do the
  work it does not do itself: \<^verbatim>\<open>requests\<close> (the transport) and
  \<^verbatim>\<open>xml.etree.ElementTree\<close> (parsing and serialising). Both are parameters of
  the model (the record \<open>env\<close>): every theorem below holds for any television and any
  parser. What the module does with them is translated line by line.

  Every request the client issues is appended to a log, so that a theorem can say which
  requests were issued and in which order. The \<^verbatim>\<open>print\<close> calls of
  \<^verbatim>\<open>_send_to_tv\<close> have no effect on any value and are left out. The transport is
  a function from the requests issued so far and the present request to a response: an
  exception of the transport itself (a timeout, a refused connection) is raised inside
  \<^verbatim>\<open>requests\<close>, passes through every method unchanged and is not modelled.
\<close>

subsection \<open>Exceptions\<close>

text \<open>
  \<^verbatim>\<open>AccessTokenError\<close> and \<^verbatim>\<open>SessionIdError\<close> are the module's own exceptions,
  each with its message. The others are raised by Python or by ElementTree in places the
  module leaves unguarded: \<^verbatim>\<open>ParseError\<close> by \<^verbatim>\<open>ElementTree.XML\<close>,
  \<^verbatim>\<open>AttributeError\<close> by \<^verbatim>\<open>None.text\<close>, \<^verbatim>\<open>TypeError\<close> by
  \<^verbatim>\<open>None["target"]\<close> and by a format with the wrong number of arguments,
  \<^verbatim>\<open>KeyError\<close> by a missing dictionary key, \<^verbatim>\<open>ValueError\<close> by a
  malformed format string.
\<close>

datatype error =
    AccessTokenError string
  | SessionIdError string
  | ParseError
  | AttributeError
  | TypeError
  | KeyError
  | ValueError

subsection \<open>Strings: \<^verbatim>\<open>str\<close> and the \<^verbatim>\<open>%\<close> operator\<close>

definition digit :: "nat \<Rightarrow> char" where
  "digit d = ''0123456789'' ! (d mod 10)"

fun str_nat :: "nat \<Rightarrow> string" where
  "str_nat n = (if n < 10 then [digit n] else str_nat (n div 10) @ [digit n])"

text \<open>\<^verbatim>\<open>str(i)\<close> for an integer: decimal digits, with a minus sign when negative.\<close>

definition str_int :: "int \<Rightarrow> string" where
  "str_int i = (if i < 0 then CHR ''-'' # str_nat (nat (- i)) else str_nat (nat i))"

text \<open>\<^verbatim>\<open>str(x)\<close> for a value that is a string or \<^verbatim>\<open>None\<close>.\<close>

definition str_opt :: "string option \<Rightarrow> string" where
  "str_opt x = (case x of None \<Rightarrow> ''None'' | Some s \<Rightarrow> s)"

text \<open>Python's truth value of a string or \<^verbatim>\<open>None\<close>: false for both \<^verbatim>\<open>None\<close> and \<^verbatim>\<open>''\<close>.\<close>

definition truthy :: "string option \<Rightarrow> bool" where
  "truthy x = (case x of None \<Rightarrow> False | Some s \<Rightarrow> s \<noteq> [])"

text \<open>
  \<^verbatim>\<open>template % (a1, ..., an)\<close> where the only conversion used is \<^verbatim>\<open>%s\<close> and the
  arguments are already strings. Too few or too many arguments raise \<^verbatim>\<open>TypeError\<close>;
  any other character after \<^verbatim>\<open>%\<close> is outside what the module uses and is reported
  as \<^verbatim>\<open>ValueError\<close>.
\<close>

fun fmt :: "string \<Rightarrow> string list \<Rightarrow> error + string" where
  "fmt [] [] = Inr []"
| "fmt [] (a # as) = Inl TypeError"
| "fmt [c] as = (if c = CHR ''%'' then Inl ValueError else map_sum id ((#) c) (fmt [] as))"
| "fmt (c # d # cs) as =
     (if c \<noteq> CHR ''%'' then map_sum id ((#) c) (fmt (d # cs) as)
      else if d \<noteq> CHR ''s'' then Inl ValueError
      else (case as of
              [] \<Rightarrow> Inl TypeError
            | a # as' \<Rightarrow> map_sum id ((@) a) (fmt cs as')))"

subsection \<open>Constants of the module\<close>

definition LG_HANDLE_KEY_INPUT :: string where
  "LG_HANDLE_KEY_INPUT = ''HandleKeyInput''"

definition LG_HANDLE_CHANNEL_CHANGE :: string where
  "LG_HANDLE_CHANNEL_CHANGE = ''HandleChannelChange''"

definition DEFAULT_PORT :: int where
  "DEFAULT_PORT = 8080"

definition DEFAULT_TIMEOUT :: nat where
  "DEFAULT_TIMEOUT = 3"

definition HDCP :: string where
  "HDCP = ''hdcp''"

definition ROAP :: string where
  "ROAP = ''roap''"

definition HEADER :: "(string \<times> string) list" where
  "HEADER = [(''Content-Type'', ''application/atom+xml'')]"

definition XML :: string where
  "XML = ''<?xml version=\"1.0\" encoding=\"utf-8\"?>''"

definition KEY :: string where
  "KEY = XML @ ''<auth><type>AuthKeyReq</type></auth>''"

definition AUTH :: string where
  "AUTH = XML @ ''<auth><type>%s</type><value>%s</value></auth>''"

definition COMMAND :: string where
  "COMMAND = XML @ ''<command><session>%s</session><type>%s</type>%s</command>''"

text \<open>\<^verbatim>\<open>requests.codes.ok\<close>\<close>

definition codes_ok :: int where
  "codes_ok = 200"

subsection \<open>Requests, responses, elements\<close>

text \<open>
  A request is one call of \<^verbatim>\<open>requests.post(url, data=, headers=, timeout=)\<close> or of
  \<^verbatim>\<open>requests.get(url, params=, headers=, timeout=)\<close>, with the arguments of the call.
\<close>

datatype request =
    Post string string "(string \<times> string) list" nat
  | Get string "(string \<times> string) list" "(string \<times> string) list" nat

record response =
  status_code :: int
  rtext :: string

text \<open>
  An \<^verbatim>\<open>ElementTree.Element\<close>: tag, attributes, the text before the first child
  (\<^verbatim>\<open>None\<close> when there is none), the text after the end tag, and the children in
  document order.
\<close>

datatype element =
  Element (tag: string) (attrib: "(string \<times> string) list") (etext: "string option")
    (tail: "string option") (children: "element list")

text \<open>
  \<^verbatim>\<open>Element.find(name)\<close> with a bare tag name: the first child with that tag, or
  \<^verbatim>\<open>None\<close>. Only children are searched, neither the element itself nor deeper
  descendants.
\<close>

definition find_child :: "string \<Rightarrow> element \<Rightarrow> element option" where
  "find_child name e = List.find (\<lambda>c. tag c = name) (children e)"

text \<open>
  \<^verbatim>\<open>Element.iter(name)\<close>: the element itself when its tag matches, then the matches
  of each child's subtree, child after child.
\<close>

fun iter :: "string \<Rightarrow> element \<Rightarrow> element list" where
  "iter name (Element t a x l cs) =
     (if t = name then [Element t a x l cs] else []) @ concat (map (iter name) cs)"

text \<open>Document order: every element of the tree, each before its descendants.\<close>

fun document_order :: "element \<Rightarrow> element list" where
  "document_order (Element t a x l cs) =
     Element t a x l cs # concat (map document_order cs)"

subsection \<open>The collaborators\<close>

record env =
  http :: "request list \<Rightarrow> request \<Rightarrow> response"
  ElementTree_XML :: "string \<Rightarrow> element option"
  ElementTree_tostring :: "element \<Rightarrow> string"

subsection \<open>The client object and the state\<close>

record client =
  url :: string
  access_token :: "string option"
  protocol :: string
  session :: "string option"

record state =
  self :: client
  sent :: "request list"

type_synonym 'a io = "state \<Rightarrow> (error + 'a) \<times> state"

definition io_return :: "'a \<Rightarrow> 'a io" where
  "io_return x = (\<lambda>s. (Inr x, s))"

definition io_raise :: "error \<Rightarrow> 'a io" where
  "io_raise e = (\<lambda>s. (Inl e, s))"

definition io_lift :: "error + 'a \<Rightarrow> 'a io" where
  "io_lift r = (\<lambda>s. (r, s))"

definition io_bind :: "'a io \<Rightarrow> ('a \<Rightarrow> 'b io) \<Rightarrow> 'b io" where
  "io_bind m f = (\<lambda>s. case m s of (Inl e, s') \<Rightarrow> (Inl e, s') | (Inr x, s') \<Rightarrow> f x s')"

definition get_self :: "client io" where
  "get_self = (\<lambda>s. (Inr (self s), s))"

definition set_session :: "string option \<Rightarrow> unit io" where
  "set_session v = (\<lambda>s. (Inr (), s\<lparr>self := (self s)\<lparr>session := v\<rparr>\<rparr>))"

definition requests_post :: "env \<Rightarrow> string \<Rightarrow> string \<Rightarrow> response io" where
  "requests_post env u message =
     (\<lambda>s. let req = Post u message HEADER DEFAULT_TIMEOUT
          in (Inr (http env (sent s) req), s\<lparr>sent := sent s @ [req]\<rparr>))"

definition requests_get :: "env \<Rightarrow> string \<Rightarrow> (string \<times> string) list \<Rightarrow> response io" where
  "requests_get env u payload =
     (\<lambda>s. let req = Get u payload HEADER DEFAULT_TIMEOUT
          in (Inr (http env (sent s) req), s\<lparr>sent := sent s @ [req]\<rparr>))"

text \<open>\<^verbatim>\<open>ElementTree.XML(data)\<close>, raising \<^verbatim>\<open>ParseError\<close> on a body that is not XML.\<close>

definition parse_XML :: "env \<Rightarrow> string \<Rightarrow> error + element" where
  "parse_XML env data = (case ElementTree_XML env data of None \<Rightarrow> Inl ParseError | Some t \<Rightarrow> Inr t)"

subsection \<open>The methods of \<^verbatim>\<open>LgNetCastClient\<close>\<close>

text \<open>
  Names: \<open>init\<close>, \<open>enter\<close> and \<open>exit_client\<close> are \<^verbatim>\<open>__init__\<close>,
  \<^verbatim>\<open>__enter__\<close> and \<^verbatim>\<open>__exit__\<close>; \<open>send_to_tv\<close>, \<open>get_session_id\<close> and
  \<open>display_pair_key\<close> are the methods of these names with a leading underscore; the
  field \<open>session\<close> is \<^verbatim>\<open>_session\<close>; \<open>rtext\<close> is the \<^verbatim>\<open>text\<close> of a response
  and \<open>etext\<close> the \<^verbatim>\<open>text\<close> of an element. A pairing token is a string or
  \<^verbatim>\<open>None\<close>, a command code an integer, as the constants of \<^verbatim>\<open>LG_COMMAND\<close> are.
\<close>

definition init :: "string \<Rightarrow> string option \<Rightarrow> string \<Rightarrow> error + client" where
  "init host token proto =
     map_sum id
       (\<lambda>u. \<lparr>url = u, access_token = token, protocol = proto, session = None\<rparr>)
       (fmt ''http://%s:%s/%s/api/'' [host, str_int DEFAULT_PORT, proto])"

text \<open>The rewriting of \<^verbatim>\<open>message_type\<close> at the head of \<^verbatim>\<open>_send_to_tv\<close>.\<close>

definition route :: "string \<Rightarrow> string \<Rightarrow> string" where
  "route proto message_type =
     (if proto = HDCP
      then (if message_type = ''auth'' then ''auth'' else ''dtv_wifirc'')
      else message_type)"

text \<open>
  \<^verbatim>\<open>if message:\<close> holds for a string that is not empty; \<^verbatim>\<open>None\<close> and
  \<^verbatim>\<open>''\<close> take the other branch. There \<^verbatim>\<open>payload["target"]\<close> raises
  \<^verbatim>\<open>TypeError\<close> when \<^verbatim>\<open>payload\<close> is \<^verbatim>\<open>None\<close> and \<^verbatim>\<open>KeyError\<close> when
  the dictionary has no such key.
\<close>

definition send_to_tv ::
    "env \<Rightarrow> string \<Rightarrow> string option \<Rightarrow> (string \<times> string) list option \<Rightarrow> response io" where
  "send_to_tv env message_type message payload =
     io_bind get_self (\<lambda>me.
       let message_type = route (protocol me) message_type in
       case message of
         Some (c # cs) \<Rightarrow>
           io_bind (io_lift (fmt ''%s%s'' [url me, message_type])) (\<lambda>u.
             requests_post env u (c # cs))
       | _ \<Rightarrow>
           (case payload of
              None \<Rightarrow> io_raise TypeError
            | Some d \<Rightarrow>
                (case map_of d ''target'' of
                   None \<Rightarrow> io_raise KeyError
                 | Some target \<Rightarrow>
                     io_bind (io_lift (fmt ''%sdata?target=%s&session=%s''
                                          [url me, target, str_opt (session me)])) (\<lambda>u.
                       requests_get env u d))))"

definition display_pair_key :: "env \<Rightarrow> unit io" where
  "display_pair_key env =
     io_bind (send_to_tv env ''auth'' (Some KEY) None) (\<lambda>_. io_return ())"

definition get_session_id :: "env \<Rightarrow> string option io" where
  "get_session_id env =
     io_bind get_self (\<lambda>me.
       if \<not> truthy (access_token me) then
         io_bind (display_pair_key env) (\<lambda>_.
           io_raise (AccessTokenError ''No access token specified to create session.''))
       else
         io_bind (io_lift (fmt AUTH [''AuthReq'', str_opt (access_token me)])) (\<lambda>message.
         io_bind (send_to_tv env ''auth'' (Some message) None) (\<lambda>response.
           if status_code response \<noteq> codes_ok then
             io_raise (SessionIdError ''Can not get session id from TV.'')
           else
             io_bind (io_lift (parse_XML env (rtext response))) (\<lambda>tree.
               case find_child ''session'' tree of
                 None \<Rightarrow> io_raise AttributeError
               | Some e \<Rightarrow> io_return (etext e)))))"

definition enter :: "env \<Rightarrow> client io" where
  "enter env =
     io_bind (get_session_id env) (\<lambda>v.
     io_bind (set_session v) (\<lambda>_. get_self))"

definition exit_client :: "unit io" where
  "exit_client = set_session None"

text \<open>
  \<^verbatim>\<open>send_command\<close> and \<^verbatim>\<open>change_channel\<close> have no \<^verbatim>\<open>return\<close> statement: the
  response of \<^verbatim>\<open>_send_to_tv\<close> is dropped and the caller receives \<^verbatim>\<open>None\<close>.
\<close>

definition send_command :: "env \<Rightarrow> int \<Rightarrow> response option io" where
  "send_command env command =
     io_bind get_self (\<lambda>me.
     io_bind (io_lift (fmt ''<value>%s</value>'' [str_int command])) (\<lambda>v.
     io_bind (io_lift (fmt COMMAND [str_opt (session me), LG_HANDLE_KEY_INPUT, v])) (\<lambda>message.
     io_bind (send_to_tv env ''command'' (Some message) None) (\<lambda>_.
       io_return None))))"

definition change_channel :: "env \<Rightarrow> element \<Rightarrow> response option io" where
  "change_channel env channel =
     io_bind get_self (\<lambda>me.
     io_bind (io_lift (fmt COMMAND [str_opt (session me), LG_HANDLE_CHANNEL_CHANGE,
                                    ElementTree_tostring env channel])) (\<lambda>message.
     io_bind (send_to_tv env ''command'' (Some message) None) (\<lambda>_.
       io_return None)))"

text \<open>
  \<^verbatim>\<open>query_data\<close> returns the list it has built when the status is
  \<^verbatim>\<open>requests.codes.ok\<close> and falls off its end, returning \<^verbatim>\<open>None\<close>, otherwise.
  The loop appends each element of \<^verbatim>\<open>tree.iter('data')\<close> to \<^verbatim>\<open>data_list\<close>.
\<close>

definition query_data :: "env \<Rightarrow> string \<Rightarrow> element list option io" where
  "query_data env query =
     io_bind (send_to_tv env ''data'' None (Some [(''target'', query)])) (\<lambda>response.
       if status_code response = codes_ok then
         io_bind (io_lift (parse_XML env (rtext response))) (\<lambda>tree.
           io_return (Some (foldl (\<lambda>data_list data. data_list @ [data]) [] (iter ''data'' tree))))
       else io_return None)"

subsection \<open>Reading a message back\<close>

text \<open>
  The television reads a posted body as XML. To say which elements a message has, a
  reader for the part of XML in which the client's own messages are written: an optional
  declaration at the start, then one element; elements have a start tag without
  attributes, character data and child elements, and an end tag. The reader is strict:
  it returns \<open>None\<close> on everything else (references, attributes, comments, empty-element
  tags, control characters, a markup character inside character data, anything after
  the root).
  It builds the same \<open>element\<close> values as ElementTree does: \<open>etext\<close> is the character
  data before the first child and is \<open>None\<close> when there is none, \<open>tail\<close> the character
  data after the end tag.
\<close>

datatype token = Decl | Open string | Close string | Chars string

text \<open>A character that may stand in character data as it is.\<close>

definition plain :: "char \<Rightarrow> bool" where
  "plain c = (c \<noteq> CHR ''<'' \<and> c \<noteq> CHR ''>'' \<and> c \<noteq> CHR ''&'' \<and> (32::nat) \<le> of_char c)"

definition name_start :: "char \<Rightarrow> bool" where
  "name_start c = (c \<in> set ''abcdefghijklmnopqrstuvwxyzABCDEFGHIJKLMNOPQRSTUVWXYZ_'')"

definition name_char :: "char \<Rightarrow> bool" where
  "name_char c = (name_start c \<or> c \<in> set ''0123456789-.'')"

definition is_name :: "string \<Rightarrow> bool" where
  "is_name n = (case n of [] \<Rightarrow> False | c # cs \<Rightarrow> name_start c \<and> list_all name_char cs)"

definition chars_token :: "string \<Rightarrow> token list" where
  "chars_token acc = (if acc = [] then [] else [Chars acc])"

text \<open>The token for what stands between \<^verbatim>\<open><\<close> and \<^verbatim>\<open>>\<close>.\<close>

definition markup_token :: "string \<Rightarrow> token option" where
  "markup_token m =
     (case m of
        [] \<Rightarrow> None
      | c # cs \<Rightarrow>
          if c = CHR ''?'' then (if cs \<noteq> [] \<and> last cs = CHR ''?'' then Some Decl else None)
          else if c = CHR ''/'' then (if is_name cs then Some (Close cs) else None)
          else if is_name m then Some (Open m) else None)"

fun lex_chars :: "string \<Rightarrow> string \<Rightarrow> token list option"
and lex_markup :: "string \<Rightarrow> string \<Rightarrow> token list option" where
  "lex_chars acc [] = Some (chars_token acc)"
| "lex_chars acc (c # cs) =
     (if c = CHR ''<'' then map_option ((@) (chars_token acc)) (lex_markup [] cs)
      else if plain c then lex_chars (acc @ [c]) cs
      else None)"
| "lex_markup acc [] = None"
| "lex_markup acc (c # cs) =
     (if c = CHR ''>'' then
        (case markup_token acc of
           None \<Rightarrow> None
         | Some t \<Rightarrow> map_option ((#) t) (lex_chars [] cs))
      else if c = CHR ''<'' then None
      else lex_markup (acc @ [c]) cs)"

text \<open>
  The elements that are open, innermost first, each with its tag, its text and the
  children it has so far.
\<close>

type_synonym frame = "string \<times> string option \<times> element list"

fun build :: "token list \<Rightarrow> frame list \<Rightarrow> element option" where
  "build [] st = None"
| "build (Decl # ts) st = None"
| "build (Open n # ts) st = build ts ((n, None, []) # st)"
| "build (Chars x # ts) [] = None"
| "build (Chars x # ts) ((n, tx, cs) # st) =
     (case rev cs of
        [] \<Rightarrow> build ts ((n, Some x, []) # st)
      | Element t a y l ds # rs \<Rightarrow>
          build ts ((n, tx, rev rs @ [Element t a y (Some x) ds]) # st))"
| "build (Close n # ts) [] = None"
| "build (Close n # ts) [(m, tx, cs)] =
     (if n = m \<and> ts = [] then Some (Element m [] tx None cs) else None)"
| "build (Close n # ts) ((m, tx, cs) # (p, ptx, pcs) # st) =
     (if n = m then build ts ((p, ptx, pcs @ [Element m [] tx None cs]) # st) else None)"

definition read_xml :: "string \<Rightarrow> element option" where
  "read_xml s =
     (case lex_chars [] s of
        None \<Rightarrow> None
      | Some ts \<Rightarrow> build (case ts of Decl # ts' \<Rightarrow> ts' | _ \<Rightarrow> ts) [])"

text \<open>The text of the first child with the given tag.\<close>

definition child_text :: "string \<Rightarrow> element \<Rightarrow> string option" where
  "child_text name e = (case find_child name e of None \<Rightarrow> None | Some c \<Rightarrow> etext c)"

text \<open>
  The envelope of a key-input command as the specification describes it: the root is
  \<^verbatim>\<open>command\<close>, the text of its \<^verbatim>\<open>session\<close> child is the session, that of its
  \<^verbatim>\<open>type\<close> child the key-input handler, that of its \<^verbatim>\<open>value\<close> child the string
  form of the code.
\<close>

definition key_input_envelope :: "string \<Rightarrow> int \<Rightarrow> string \<Rightarrow> bool" where
  "key_input_envelope s c message =
     (case read_xml message of
        None \<Rightarrow> False
      | Some t \<Rightarrow>
          tag t = ''command'' \<and>
          child_text ''session'' t = Some s \<and>
          child_text ''type'' t = Some LG_HANDLE_KEY_INPUT \<and>
          child_text ''value'' t = Some (str_int c))"

subsection \<open>The messages in closed form\<close>

text \<open>
  What the three uses of the \<^verbatim>\<open>AUTH\<close> and \<^verbatim>\<open>COMMAND\<close> templates produce, as plain
  concatenations; the lemmas \<open>fmt_AUTH\<close>, \<open>fmt_COMMAND\<close> and \<open>fmt_value\<close> below tie
  them to the templates.
\<close>

definition auth_message :: "string \<Rightarrow> string" where
  "auth_message t = XML @ ''<auth><type>AuthReq</type><value>'' @ t @ ''</value></auth>''"

definition command_message :: "string option \<Rightarrow> int \<Rightarrow> string" where
  "command_message v c =
     XML @ ''<command><session>'' @ str_opt v @ ''</session><type>HandleKeyInput</type><value>'' @
     str_int c @ ''</value></command>''"

definition channel_message :: "string option \<Rightarrow> string \<Rightarrow> string" where
  "channel_message v x =
     XML @ ''<command><session>'' @ str_opt v @ ''</session><type>HandleChannelChange</type>'' @
     x @ ''</command>''"

subsection \<open>A stubbed television and example clients\<close>

text \<open>
  The concrete inputs of the examples: a television that answers every request with
  the same status and body, the reader above as parser, and a serialiser that writes an
  element the way the reader reads it.
\<close>

fun write_xml :: "element \<Rightarrow> string" where
  "write_xml (Element t a x l cs) =
     ''<'' @ t @ ''>'' @ (case x of None \<Rightarrow> [] | Some y \<Rightarrow> y) @ concat (map write_xml cs) @
     ''</'' @ t @ ''>'' @ (case l of None \<Rightarrow> [] | Some y \<Rightarrow> y)"

definition tv_stub :: "int \<Rightarrow> string \<Rightarrow> env" where
  "tv_stub st body =
     \<lparr>http = (\<lambda>log req. \<lparr>status_code = st, rtext = body\<rparr>),
      ElementTree_XML = read_xml,
      ElementTree_tostring = write_xml\<rparr>"

definition example_client :: "string option \<Rightarrow> string \<Rightarrow> string option \<Rightarrow> client" where
  "example_client token proto v =
     \<lparr>url = ''http://tv:8080/'' @ proto @ ''/api/'', access_token = token, protocol = proto,
      session = v\<rparr>"

definition auth_body :: string where
  "auth_body =
     ''<envelope><ROAPError>200</ROAPError><ROAPErrorDetail>OK</ROAPErrorDetail><session>839204</session></envelope>''"

definition data_body :: string where
  "data_body =
     ''<envelope><data>1</data><group><data>2</data><inner><data>3</data></inner></group></envelope>''"

section \<open>Basic facts\<close>

declare str_nat.simps [simp del]

subsection \<open>The templates\<close>

lemma fmt_COMMAND:
  "fmt COMMAND [a, b, c] =
     Inr (XML @ ''<command><session>'' @ a @ ''</session><type>'' @ b @ ''</type>'' @ c @
          ''</command>'')"
  by (simp add: COMMAND_def XML_def)

lemma fmt_AUTH:
  "fmt AUTH [a, b] =
     Inr (XML @ ''<auth><type>'' @ a @ ''</type><value>'' @ b @ ''</value></auth>'')"
  by (simp add: AUTH_def XML_def)

lemma fmt_value: "fmt ''<value>%s</value>'' [a] = Inr (''<value>'' @ a @ ''</value>'')"
  by simp

lemma fmt_url: "fmt ''%s%s'' [a, b] = Inr (a @ b)"
  by simp

lemma fmt_get:
  "fmt ''%sdata?target=%s&session=%s'' [a, b, c] =
     Inr (a @ ''data?target='' @ b @ ''&session='' @ c)"
  by simp

lemma fmt_base:
  "fmt ''http://%s:%s/%s/api/'' [a, b, c] =
     Inr (''http://'' @ a @ '':'' @ b @ ''/'' @ c @ ''/api/'')"
  by simp

lemma str_port: "str_int DEFAULT_PORT = ''8080''"
  by (simp add: DEFAULT_PORT_def str_int_def digit_def str_nat.simps)

lemma init_eq:
  "init host token proto =
     Inr \<lparr>url = ''http://'' @ host @ '':8080/'' @ proto @ ''/api/'', access_token = token,
          protocol = proto, session = None\<rparr>"
  unfolding init_def fmt_base str_port by simp

lemma XML_nonempty: "XML @ m \<noteq> []"
  by (simp add: XML_def)

lemma KEY_nonempty: "KEY \<noteq> []"
  by (simp add: KEY_def XML_def)

lemma route_auth: "route proto ''auth'' = ''auth''"
  by (simp add: route_def)

subsection \<open>What each method does, in one equation\<close>

lemmas io_defs = io_bind_def io_return_def io_raise_def io_lift_def get_self_def
  set_session_def requests_post_def requests_get_def

lemma send_to_tv_post:
  "m \<noteq> [] \<Longrightarrow>
   send_to_tv env mt (Some m) payload s =
     (Inr (http env (sent s)
             (Post (url (self s) @ route (protocol (self s)) mt) m HEADER DEFAULT_TIMEOUT)),
      s\<lparr>sent := sent s @
             [Post (url (self s) @ route (protocol (self s)) mt) m HEADER DEFAULT_TIMEOUT]\<rparr>)"
  unfolding send_to_tv_def fmt_url
  by (cases m) (simp_all add: io_defs Let_def)

lemmas send_to_tv_post_XML = send_to_tv_post [OF XML_nonempty]

lemma send_to_tv_get:
  "send_to_tv env mt None (Some [(''target'', q)]) s =
     (Inr (http env (sent s)
             (Get (url (self s) @ ''data?target='' @ q @ ''&session='' @ str_opt (session (self s)))
                [(''target'', q)] HEADER DEFAULT_TIMEOUT)),
      s\<lparr>sent := sent s @
             [Get (url (self s) @ ''data?target='' @ q @ ''&session='' @ str_opt (session (self s)))
                [(''target'', q)] HEADER DEFAULT_TIMEOUT]\<rparr>)"
  unfolding send_to_tv_def fmt_get
  by (simp add: io_defs Let_def)

lemma send_command_eq:
  "send_command env c s =
     (Inr None,
      s\<lparr>sent := sent s @
             [Post (url (self s) @ route (protocol (self s)) ''command'')
                (command_message (session (self s)) c) HEADER DEFAULT_TIMEOUT]\<rparr>)"
  unfolding send_command_def fmt_value fmt_COMMAND
  by (simp add: io_defs send_to_tv_post_XML command_message_def LG_HANDLE_KEY_INPUT_def)

lemma change_channel_eq:
  "change_channel env ch s =
     (Inr None,
      s\<lparr>sent := sent s @
             [Post (url (self s) @ route (protocol (self s)) ''command'')
                (channel_message (session (self s)) (ElementTree_tostring env ch))
                HEADER DEFAULT_TIMEOUT]\<rparr>)"
  unfolding change_channel_def fmt_COMMAND
  by (simp add: io_defs send_to_tv_post_XML channel_message_def LG_HANDLE_CHANNEL_CHANGE_def)

lemma display_pair_key_eq:
  "display_pair_key env s =
     (Inr (), s\<lparr>sent := sent s @ [Post (url (self s) @ ''auth'') KEY HEADER DEFAULT_TIMEOUT]\<rparr>)"
  unfolding display_pair_key_def
  by (simp add: io_defs send_to_tv_post [OF KEY_nonempty] route_auth)

lemma get_session_id_no_token:
  "\<not> truthy (access_token (self s)) \<Longrightarrow>
   get_session_id env s =
     (Inl (AccessTokenError ''No access token specified to create session.''),
      s\<lparr>sent := sent s @ [Post (url (self s) @ ''auth'') KEY HEADER DEFAULT_TIMEOUT]\<rparr>)"
  unfolding get_session_id_def
  by (simp add: io_defs display_pair_key_eq)

lemma get_session_id_token:
  "truthy (access_token (self s)) \<Longrightarrow>
   get_session_id env s =
     (let req = Post (url (self s) @ ''auth'')
                  (auth_message (str_opt (access_token (self s)))) HEADER DEFAULT_TIMEOUT;
          response = http env (sent s) req;
          s' = s\<lparr>sent := sent s @ [req]\<rparr>
      in if status_code response \<noteq> codes_ok
         then (Inl (SessionIdError ''Can not get session id from TV.''), s')
         else (case ElementTree_XML env (rtext response) of
                 None \<Rightarrow> (Inl ParseError, s')
               | Some tree \<Rightarrow>
                   (case find_child ''session'' tree of
                      None \<Rightarrow> (Inl AttributeError, s')
                    | Some e \<Rightarrow> (Inr (etext e), s'))))"
  unfolding get_session_id_def fmt_AUTH
  by (simp add: io_defs send_to_tv_post_XML route_auth auth_message_def parse_XML_def Let_def
      split: option.splits)

lemma query_data_eq:
  "query_data env q s =
     (let req = Get (url (self s) @ ''data?target='' @ q @ ''&session='' @
                     str_opt (session (self s))) [(''target'', q)] HEADER DEFAULT_TIMEOUT;
          response = http env (sent s) req;
          s' = s\<lparr>sent := sent s @ [req]\<rparr>
      in if status_code response = codes_ok then
           (case ElementTree_XML env (rtext response) of
              None \<Rightarrow> (Inl ParseError, s')
            | Some tree \<Rightarrow>
                (Inr (Some (foldl (\<lambda>data_list data. data_list @ [data]) []
                              (iter ''data'' tree))), s'))
         else (Inr None, s'))"
  unfolding query_data_def
  by (simp add: io_defs send_to_tv_get parse_XML_def Let_def split: option.splits)

subsection \<open>Lists of elements\<close>

lemma foldl_append_single: "foldl (\<lambda>acc x. acc @ [x]) xs ys = xs @ ys"
  by (induction ys arbitrary: xs) simp_all

lemma iter_document_order: "iter name e = filter (\<lambda>d. tag d = name) (document_order e)"
  by (induction e rule: document_order.induct) (simp add: filter_concat comp_def cong: map_cong)

subsection \<open>The reader on the client's messages\<close>

lemma lex_chars_plain:
  "list_all plain s \<Longrightarrow> lex_chars acc (s @ rest) = lex_chars (acc @ s) rest"
proof (induction s arbitrary: acc)
  case Nil
  then show ?case by simp
next
  case (Cons c s)
  then have "c \<noteq> CHR ''<''" "plain c" by (simp_all add: plain_def)
  with Cons show ?case by simp
qed

lemma digit_in: "digit d \<in> set ''0123456789''"
  unfolding digit_def by (rule nth_mem) simp

lemma plain_digit: "plain (digit d)"
  using digit_in [of d] by (auto simp: plain_def)

lemma str_nat_plain: "list_all plain (str_nat n)"
  by (induction n rule: str_nat.induct) (subst str_nat.simps, simp add: plain_digit)

lemma str_nat_nonempty: "str_nat n \<noteq> []"
  by (subst str_nat.simps) simp

lemma str_int_plain: "list_all plain (str_int c)"
  by (simp add: str_int_def str_nat_plain plain_def)

lemma str_int_nonempty: "str_int c \<noteq> []"
  by (simp add: str_int_def str_nat_nonempty)

lemma is_name_tags:
  "is_name ''command''" "is_name ''session''" "is_name ''type''" "is_name ''value''"
  by (simp_all add: is_name_def name_start_def name_char_def)

lemma lex_command_message:
  assumes "s \<noteq> []" "list_all plain s"
  shows "lex_chars [] (command_message (Some s) c) =
    Some [Decl, Open ''command'', Open ''session'', Chars s, Close ''session'',
          Open ''type'', Chars ''HandleKeyInput'', Close ''type'',
          Open ''value'', Chars (str_int c), Close ''value'', Close ''command'']"
  using assms str_int_plain [of c] str_int_nonempty [of c]
  by (simp add: command_message_def XML_def str_opt_def lex_chars_plain markup_token_def
      is_name_tags chars_token_def plain_def)

lemma read_command_message:
  assumes "s \<noteq> []" "list_all plain s"
  shows "read_xml (command_message (Some s) c) =
    Some (Element ''command'' [] None None
      [Element ''session'' [] (Some s) None [],
       Element ''type'' [] (Some ''HandleKeyInput'') None [],
       Element ''value'' [] (Some (str_int c)) None []])"
  unfolding read_xml_def lex_command_message [OF assms] by simp

lemma command_message_None: "command_message None c = command_message (Some ''None'') c"
  by (simp add: command_message_def str_opt_def)

subsection \<open>Entering the client context\<close>

lemma find_first:
  "list_all (\<lambda>b. \<not> P b) before \<Longrightarrow> P e \<Longrightarrow> List.find P (before @ e # after) = Some e"
  by (induction before) simp_all

lemma enter_eq:
  "enter env s =
     (case get_session_id env s of
        (Inl e, s') \<Rightarrow> (Inl e, s')
      | (Inr v, s') \<Rightarrow> (Inr ((self s')\<lparr>session := v\<rparr>), s'\<lparr>self := (self s')\<lparr>session := v\<rparr>\<rparr>))"
  by (simp add: enter_def io_bind_def set_session_def get_self_def split: prod.splits sum.splits)

lemma read_auth_body:
  "read_xml auth_body =
     Some (Element ''envelope'' [] None None
       [Element ''ROAPError'' [] (Some ''200'') None [],
        Element ''ROAPErrorDetail'' [] (Some ''OK'') None [],
        Element ''session'' [] (Some ''839204'') None []])"
  by code_simp


lemma read_session_root:
  "read_xml ''<session>839204</session>'' = Some (Element ''session'' [] (Some ''839204'') None [])"
  by code_simp

lemma read_session_nested:
  "read_xml ''<envelope><result><session>839204</session></result></envelope>'' =
     Some (Element ''envelope'' [] None None
       [Element ''result'' [] None None [Element ''session'' [] (Some ''839204'') None []]])"
  by code_simp

lemma read_session_twice:
  "read_xml ''<envelope><session>1</session><session>839204</session></envelope>'' =
     Some (Element ''envelope'' [] None None
       [Element ''session'' [] (Some ''1'') None [],
        Element ''session'' [] (Some ''839204'') None []])"
  by code_simp

lemma enter_stub:
  assumes "truthy (access_token (self s))"
  shows "fst (enter (tv_stub 200 body) s) =
     (case read_xml body of
        None \<Rightarrow> Inl ParseError
      | Some tree \<Rightarrow>
          (case find_child ''session'' tree of
             None \<Rightarrow> Inl AttributeError
           | Some e \<Rightarrow> Inr ((self s)\<lparr>session := etext e\<rparr>)))"
  by (simp add: enter_eq get_session_id_token [OF assms] Let_def tv_stub_def codes_ok_def
      split: option.splits)

lemma route_HDCP: "route HDCP mt = (if mt = ''auth'' then ''auth'' else ''dtv_wifirc'')"
  by (simp add: route_def)

lemma get_session_id_sent:
  "sent (snd (get_session_id env s)) =
     sent s @ [Post (url (self s) @ ''auth'')
                 (if truthy (access_token (self s))
                  then auth_message (str_opt (access_token (self s))) else KEY)
                 HEADER DEFAULT_TIMEOUT]"
proof (cases "truthy (access_token (self s))")
  case True
  then show ?thesis
    by (simp add: get_session_id_token Let_def split: option.splits)
next
  case False
  then show ?thesis
    by (simp add: get_session_id_no_token)
qed

lemma key_input_envelope_read:
  assumes "read_xml m = Some (Element ''command'' [] None None
      [Element ''session'' [] (Some v) None [],
       Element ''type'' [] (Some ''HandleKeyInput'') None [],
       Element ''value'' [] (Some (str_int c)) None []])"
  shows "key_input_envelope v c m"
  unfolding key_input_envelope_def assms
  by (simp add: child_text_def find_child_def LG_HANDLE_KEY_INPUT_def)

lemma read_injected_message:
  "read_xml (command_message (Some ''a</session><session>b'') 23) =
     Some (Element ''command'' [] None None
       [Element ''session'' [] (Some ''a'') None [],
        Element ''session'' [] (Some ''b'') None [],
        Element ''type'' [] (Some ''HandleKeyInput'') None [],
        Element ''value'' [] (Some ''23'') None []])"
  by code_simp

lemma plain_None: "list_all plain ''None''"
  by (simp add: plain_def)

lemma read_command_message_None:
  "read_xml (command_message None c) =
     Some (Element ''command'' [] None None
       [Element ''session'' [] (Some ''None'') None [],
        Element ''type'' [] (Some ''HandleKeyInput'') None [],
        Element ''value'' [] (Some (str_int c)) None []])"
  unfolding command_message_None
  by (rule read_command_message [OF _ plain_None]) simp

subsection \<open>Queries\<close>

lemma read_data_body:
  "read_xml data_body =
     Some (Element ''envelope'' [] None None
       [Element ''data'' [] (Some ''1'') None [],
        Element ''group'' [] None None
         [Element ''data'' [] (Some ''2'') None [],
          Element ''inner'' [] None None
           [Element ''data'' [] (Some ''3'') None []]]])"
  by code_simp

lemma query_data_None_iff:
  "fst (query_data env q s) = Inr None \<longleftrightarrow>
   status_code (http env (sent s)
     (Get (url (self s) @ ''data?target='' @ q @ ''&session='' @ str_opt (session (self s)))
        [(''target'', q)] HEADER DEFAULT_TIMEOUT)) \<noteq> codes_ok"
  by (simp add: query_data_eq Let_def split: option.splits)

section \<open>Connecting\<close>

text \<open>
  Claim C1, as amended. For every client (every host, every dialect) whose pairing token
  is not empty: if the television answers the authentication request with status
  \<^verbatim>\<open>requests.codes.ok\<close> and a body that parses to a tree whose root has a
  \<^verbatim>\<open>session\<close> child, the first child of that tag having the text \<open>S\<close>, then
  entering the context returns the client with \<open>S\<close> stored as its session, and
  exactly the authentication request has been issued.
\<close>

theorem connect_yields_session:
  assumes token: "truthy (access_token (self s))"
    and req: "req = Post (url (self s) @ ''auth'')
                 (auth_message (str_opt (access_token (self s)))) HEADER DEFAULT_TIMEOUT"
    and status: "status_code (http env (sent s) req) = codes_ok"
    and body: "ElementTree_XML env (rtext (http env (sent s) req)) = Some tree"
    and kids: "children tree = before @ e # after"
    and first: "list_all (\<lambda>b. tag b \<noteq> ''session'') before"
    and sess: "tag e = ''session''" "etext e = Some S"
  shows "enter env s =
           (Inr ((self s)\<lparr>session := Some S\<rparr>),
            s\<lparr>self := (self s)\<lparr>session := Some S\<rparr>, sent := sent s @ [req]\<rparr>)"
proof -
  have found: "find_child ''session'' tree = Some e"
    unfolding find_child_def kids
    using first sess(1) find_first [of "\<lambda>c. tag c = ''session''" before e after] by simp
  have "get_session_id env s = (Inr (Some S), s\<lparr>sent := sent s @ [req]\<rparr>)"
    using status body found sess(2) unfolding req
    by (simp add: get_session_id_token [OF token] Let_def)
  then show ?thesis
    by (simp add: enter_eq)
qed

theorem connect_yields_session_witness:
  "init ''tv'' (Some ''492781'') ROAP = Inr (example_client (Some ''492781'') ROAP None) \<and>
   truthy (access_token (self \<lparr>self = example_client (Some ''492781'') ROAP None, sent = []\<rparr>)) \<and>
   enter (tv_stub 200 auth_body) \<lparr>self = example_client (Some ''492781'') ROAP None, sent = []\<rparr> =
     (Inr (example_client (Some ''492781'') ROAP (Some ''839204'')),
      \<lparr>self = example_client (Some ''492781'') ROAP (Some ''839204''),
       sent = [Post ''http://tv:8080/roap/api/auth'' (auth_message ''492781'') HEADER DEFAULT_TIMEOUT]\<rparr>)"
proof -
  let ?s = "\<lparr>self = example_client (Some ''492781'') ROAP None, sent = []\<rparr>"
  let ?env = "tv_stub 200 auth_body"
  let ?req = "Post ''http://tv:8080/roap/api/auth'' (auth_message ''492781'') HEADER DEFAULT_TIMEOUT"
  let ?before = "[Element ''ROAPError'' [] (Some ''200'') None [],
        Element ''ROAPErrorDetail'' [] (Some ''OK'') None []]"
  let ?e = "Element ''session'' [] (Some ''839204'') None []"
  let ?tree = "Element ''envelope'' [] None None (?before @ ?e # [])"
  have h1: "truthy (access_token (self ?s))"
    by (simp add: example_client_def truthy_def)
  have h2: "?req = Post (url (self ?s) @ ''auth'')
                 (auth_message (str_opt (access_token (self ?s)))) HEADER DEFAULT_TIMEOUT"
    by (simp add: example_client_def ROAP_def str_opt_def)
  have h3: "status_code (http ?env (sent ?s) ?req) = codes_ok"
    by (simp add: tv_stub_def codes_ok_def)
  have h4: "ElementTree_XML ?env (rtext (http ?env (sent ?s) ?req)) = Some ?tree"
    by (simp add: tv_stub_def read_auth_body)
  have h5: "children ?tree = ?before @ ?e # []"
    by simp
  have h6: "list_all (\<lambda>b. tag b \<noteq> ''session'') ?before"
    by simp
  have h7: "tag ?e = ''session''" by simp
  have h8: "etext ?e = Some ''839204''" by simp
  have "enter ?env ?s =
     (Inr (example_client (Some ''492781'') ROAP (Some ''839204'')),
      \<lparr>self = example_client (Some ''492781'') ROAP (Some ''839204''), sent = [?req]\<rparr>)"
    unfolding connect_yields_session [OF h1 h2 h3 h4 h5 h6 h7 h8]
    by (simp add: example_client_def)
  moreover have "init ''tv'' (Some ''492781'') ROAP = Inr (example_client (Some ''492781'') ROAP None)"
    by (simp add: init_eq example_client_def)
  ultimately show ?thesis using h1 by (intro conjI)
qed

text \<open>
  The claim as stated, for every body that contains a \<^verbatim>\<open>session\<close> element with
  text \<open>S\<close>, fails: \<^verbatim>\<open>tree.find('session')\<close> looks only among the children of
  the root and takes the first. When the \<^verbatim>\<open>session\<close> element is the root itself,
  or lies deeper than the root's children, \<^verbatim>\<open>find\<close> returns \<^verbatim>\<open>None\<close> and
  \<^verbatim>\<open>.text\<close> raises \<^verbatim>\<open>AttributeError\<close>; when it is the second
  \<^verbatim>\<open>session\<close> child, the session stored is the text of the first.
\<close>

theorem connect_yields_session_counterexample:
  "read_xml ''<session>839204</session>'' =
     Some (Element ''session'' [] (Some ''839204'') None []) \<and>
   fst (enter (tv_stub 200 ''<session>839204</session>'')
          \<lparr>self = example_client (Some ''492781'') ROAP None, sent = []\<rparr>) =
     Inl AttributeError \<and>
   read_xml ''<envelope><result><session>839204</session></result></envelope>'' =
     Some (Element ''envelope'' [] None None
       [Element ''result'' [] None None [Element ''session'' [] (Some ''839204'') None []]]) \<and>
   Element ''session'' [] (Some ''839204'') None [] \<in>
     set (document_order (Element ''envelope'' [] None None
       [Element ''result'' [] None None [Element ''session'' [] (Some ''839204'') None []]])) \<and>
   fst (enter (tv_stub 200 ''<envelope><result><session>839204</session></result></envelope>'')
          \<lparr>self = example_client (Some ''492781'') ROAP None, sent = []\<rparr>) =
     Inl AttributeError \<and>
   read_xml ''<envelope><session>1</session><session>839204</session></envelope>'' =
     Some (Element ''envelope'' [] None None
       [Element ''session'' [] (Some ''1'') None [],
        Element ''session'' [] (Some ''839204'') None []]) \<and>
   fst (enter (tv_stub 200 ''<envelope><session>1</session><session>839204</session></envelope>'')
          \<lparr>self = example_client (Some ''492781'') ROAP None, sent = []\<rparr>) =
     Inr (example_client (Some ''492781'') ROAP (Some ''1''))"
proof -
  let ?s = "\<lparr>self = example_client (Some ''492781'') ROAP None, sent = []\<rparr>"
  have t: "truthy (access_token (self ?s))"
    by (simp add: example_client_def truthy_def)
  have a: "fst (enter (tv_stub 200 ''<session>839204</session>'') ?s) = Inl AttributeError"
    unfolding enter_stub [OF t] read_session_root by (simp add: find_child_def)
  have b1: "Element ''session'' [] (Some ''839204'') None [] \<in>
     set (document_order (Element ''envelope'' [] None None
       [Element ''result'' [] None None [Element ''session'' [] (Some ''839204'') None []]]))"
    by simp
  have b2: "fst (enter (tv_stub 200
                ''<envelope><result><session>839204</session></result></envelope>'') ?s) =
     Inl AttributeError"
    unfolding enter_stub [OF t] read_session_nested by (simp add: find_child_def)
  have c: "fst (enter (tv_stub 200
               ''<envelope><session>1</session><session>839204</session></envelope>'') ?s) =
     Inr (example_client (Some ''492781'') ROAP (Some ''1''))"
    unfolding enter_stub [OF t] read_session_twice
    by (simp add: find_child_def example_client_def)
  from read_session_root a read_session_nested b1 b2 read_session_twice c show ?thesis
    by (intro conjI)
qed

text \<open>
  Claim C2. For every client whose pairing token is empty or absent, entering the
  context fails with \<^verbatim>\<open>AccessTokenError\<close>. Before failing it has issued exactly
  one request: a POST of \<^verbatim>\<open>KEY\<close>, the \<^verbatim>\<open>AuthKeyReq\<close> message, to the
  \<^verbatim>\<open>auth\<close> path. That message is no authentication request, whatever the token
  \<open>t\<close> of the latter, and the client itself is unchanged.
\<close>

theorem empty_token_displays_key:
  assumes "\<not> truthy (access_token (self s))"
  shows "enter env s =
           (Inl (AccessTokenError ''No access token specified to create session.''),
            s\<lparr>sent := sent s @ [Post (url (self s) @ ''auth'') KEY HEADER DEFAULT_TIMEOUT]\<rparr>)
         \<and> KEY = XML @ ''<auth><type>AuthKeyReq</type></auth>''
         \<and> KEY \<noteq> auth_message t"
proof -
  have "enter env s =
           (Inl (AccessTokenError ''No access token specified to create session.''),
            s\<lparr>sent := sent s @ [Post (url (self s) @ ''auth'') KEY HEADER DEFAULT_TIMEOUT]\<rparr>)"
    by (simp add: enter_eq get_session_id_no_token [OF assms])
  moreover have "KEY \<noteq> auth_message t"
    by (simp add: KEY_def auth_message_def)
  ultimately show ?thesis
    by (simp add: KEY_def)
qed

theorem empty_token_displays_key_witness:
  "\<not> truthy (access_token (self \<lparr>self = example_client (Some '''') ROAP None, sent = []\<rparr>)) \<and>
   enter (tv_stub 200 auth_body) \<lparr>self = example_client (Some '''') ROAP None, sent = []\<rparr> =
     (Inl (AccessTokenError ''No access token specified to create session.''),
      \<lparr>self = example_client (Some '''') ROAP None,
       sent = [Post ''http://tv:8080/roap/api/auth'' KEY HEADER DEFAULT_TIMEOUT]\<rparr>)"
proof -
  let ?s = "\<lparr>self = example_client (Some '''') ROAP None, sent = []\<rparr>"
  have h: "\<not> truthy (access_token (self ?s))"
    by (simp add: example_client_def truthy_def)
  have "enter (tv_stub 200 auth_body) ?s =
     (Inl (AccessTokenError ''No access token specified to create session.''),
      \<lparr>self = example_client (Some '''') ROAP None,
       sent = [Post ''http://tv:8080/roap/api/auth'' KEY HEADER DEFAULT_TIMEOUT]\<rparr>)"
    using empty_token_displays_key [OF h, of "tv_stub 200 auth_body" "''''"]
    by (simp add: example_client_def ROAP_def)
  with h show ?thesis by (rule conjI)
qed

text \<open>
  Claim C3. For every client with a non-empty token: if the status of the response to
  the authentication request is not \<^verbatim>\<open>requests.codes.ok\<close>, entering the context
  fails with \<^verbatim>\<open>SessionIdError\<close>, and the client is left as it was: its session
  is the one it had before, so a client without a session remains without one.
\<close>

theorem auth_failure_keeps_session:
  assumes token: "truthy (access_token (self s))"
    and req: "req = Post (url (self s) @ ''auth'')
                 (auth_message (str_opt (access_token (self s)))) HEADER DEFAULT_TIMEOUT"
    and status: "status_code (http env (sent s) req) \<noteq> codes_ok"
  shows "enter env s =
           (Inl (SessionIdError ''Can not get session id from TV.''), s\<lparr>sent := sent s @ [req]\<rparr>)
         \<and> session (self (snd (enter env s))) = session (self s)"
proof -
  have "get_session_id env s =
          (Inl (SessionIdError ''Can not get session id from TV.''), s\<lparr>sent := sent s @ [req]\<rparr>)"
    using status unfolding req
    by (simp add: get_session_id_token [OF token] Let_def)
  then show ?thesis
    by (simp add: enter_eq)
qed

theorem auth_failure_keeps_session_witness:
  "truthy (access_token (self \<lparr>self = example_client (Some ''492781'') ROAP None, sent = []\<rparr>)) \<and>
   status_code (http (tv_stub 401 []) [] (Post ''http://tv:8080/roap/api/auth'' (auth_message ''492781'') HEADER DEFAULT_TIMEOUT)) \<noteq> codes_ok \<and>
   fst (enter (tv_stub 401 []) \<lparr>self = example_client (Some ''492781'') ROAP None, sent = []\<rparr>) =
     Inl (SessionIdError ''Can not get session id from TV.'') \<and>
   session (self (snd (enter (tv_stub 401 []) \<lparr>self = example_client (Some ''492781'') ROAP None, sent = []\<rparr>))) = None"
proof -
  let ?s = "\<lparr>self = example_client (Some ''492781'') ROAP None, sent = []\<rparr>"
  let ?env = "tv_stub 401 []"
  let ?req = "Post ''http://tv:8080/roap/api/auth'' (auth_message ''492781'') HEADER DEFAULT_TIMEOUT"
  have h1: "truthy (access_token (self ?s))"
    by (simp add: example_client_def truthy_def)
  have h2: "?req = Post (url (self ?s) @ ''auth'')
                 (auth_message (str_opt (access_token (self ?s)))) HEADER DEFAULT_TIMEOUT"
    by (simp add: example_client_def ROAP_def str_opt_def)
  have h3: "status_code (http ?env (sent ?s) ?req) \<noteq> codes_ok"
    by (simp add: tv_stub_def codes_ok_def)
  have h3': "status_code (http ?env [] ?req) \<noteq> codes_ok"
    by (simp add: tv_stub_def codes_ok_def)
  have c: "fst (enter ?env ?s) = Inl (SessionIdError ''Can not get session id from TV.'') \<and>
     session (self (snd (enter ?env ?s))) = None"
    using auth_failure_keeps_session [OF h1 h2 h3]
    by (simp add: example_client_def)
  from h1 h3' c show ?thesis by simp
qed

section \<open>Building and routing requests\<close>

text \<open>
  Claim C4, as amended. For every session \<open>v\<close> that is not empty and has only plain
  characters (no \<^verbatim>\<open><\<close>, \<^verbatim>\<open>>\<close>, \<^verbatim>\<open>&\<close>, no control character) and
  every command code \<open>c\<close>, \<^verbatim>\<open>send_command\<close> posts a message that reads back as
  a \<^verbatim>\<open>command\<close> element with exactly three children: \<^verbatim>\<open>session\<close> with
  text \<open>v\<close>, \<^verbatim>\<open>type\<close> with text \<^verbatim>\<open>HandleKeyInput\<close>, and \<^verbatim>\<open>value\<close>
  with the decimal string of \<open>c\<close>.
\<close>

theorem key_input_envelope_plain_session:
  assumes "session (self s) = Some v" and "v \<noteq> []" and "list_all plain v"
  shows "send_command env c s =
           (Inr None,
            s\<lparr>sent := sent s @
                   [Post (url (self s) @ route (protocol (self s)) ''command'')
                      (command_message (Some v) c) HEADER DEFAULT_TIMEOUT]\<rparr>)
         \<and> read_xml (command_message (Some v) c) =
             Some (Element ''command'' [] None None
               [Element ''session'' [] (Some v) None [],
                Element ''type'' [] (Some LG_HANDLE_KEY_INPUT) None [],
                Element ''value'' [] (Some (str_int c)) None []])
         \<and> key_input_envelope v c (command_message (Some v) c)"
proof -
  have a: "send_command env c s =
           (Inr None,
            s\<lparr>sent := sent s @
                   [Post (url (self s) @ route (protocol (self s)) ''command'')
                      (command_message (Some v) c) HEADER DEFAULT_TIMEOUT]\<rparr>)"
    unfolding send_command_eq assms(1) by (rule refl)
  note b = read_command_message [OF assms(2,3), of c]
  from a b key_input_envelope_read [OF b] show ?thesis
    by (simp add: LG_HANDLE_KEY_INPUT_def)
qed

theorem key_input_envelope_plain_session_witness:
  "list_all plain ''839204'' \<and>
   send_command (tv_stub 200 []) 23
     \<lparr>self = example_client (Some ''492781'') ROAP (Some ''839204''), sent = []\<rparr> =
     (Inr None,
      \<lparr>self = example_client (Some ''492781'') ROAP (Some ''839204''),
       sent = [Post ''http://tv:8080/roap/api/command'' (command_message (Some ''839204'') 23)
                 HEADER DEFAULT_TIMEOUT]\<rparr>) \<and>
   key_input_envelope ''839204'' 23 (command_message (Some ''839204'') 23)"
proof -
  let ?s = "\<lparr>self = example_client (Some ''492781'') ROAP (Some ''839204''), sent = []\<rparr>"
  have h1: "session (self ?s) = Some ''839204''"
    by (simp add: example_client_def)
  have h2: "''839204'' \<noteq> []" by simp
  have h3: "list_all plain ''839204''" by (simp add: plain_def)
  note t = key_input_envelope_plain_session [OF h1 h2 h3, of "tv_stub 200 []" 23]
  have a: "send_command (tv_stub 200 []) 23 ?s =
     (Inr None,
      \<lparr>self = example_client (Some ''492781'') ROAP (Some ''839204''),
       sent = [Post ''http://tv:8080/roap/api/command'' (command_message (Some ''839204'') 23)
                 HEADER DEFAULT_TIMEOUT]\<rparr>)"
    using t by (simp add: example_client_def route_def ROAP_def HDCP_def)
  have b: "key_input_envelope ''839204'' 23 (command_message (Some ''839204'') 23)"
    using t by blast
  from h3 a b show ?thesis by (intro conjI)
qed

text \<open>
  The claim as stated, for every session, fails: the session is inserted into the
  template as it is, without escaping. A session that contains markup changes the
  structure of the envelope. With the session \<^verbatim>\<open>a</session><session>b\<close> the message
  has two \<^verbatim>\<open>session\<close> children, and the text of the first is \<^verbatim>\<open>a\<close>.
\<close>

theorem key_input_envelope_counterexample:
  "sent (snd (send_command (tv_stub 200 []) 23
     \<lparr>self = example_client (Some ''492781'') ROAP (Some ''a</session><session>b''), sent = []\<rparr>)) =
     [Post ''http://tv:8080/roap/api/command''
        (command_message (Some ''a</session><session>b'') 23) HEADER DEFAULT_TIMEOUT] \<and>
   command_message (Some ''a</session><session>b'') 23 =
     XML @ ''<command><session>a</session><session>b</session><type>HandleKeyInput</type><value>23</value></command>'' \<and>
   map_option (child_text ''session'')
     (read_xml (command_message (Some ''a</session><session>b'') 23)) = Some (Some ''a'') \<and>
   \<not> key_input_envelope ''a</session><session>b'' 23
       (command_message (Some ''a</session><session>b'') 23)"
proof -
  have a: "sent (snd (send_command (tv_stub 200 []) 23
     \<lparr>self = example_client (Some ''492781'') ROAP (Some ''a</session><session>b''), sent = []\<rparr>)) =
     [Post ''http://tv:8080/roap/api/command''
        (command_message (Some ''a</session><session>b'') 23) HEADER DEFAULT_TIMEOUT]"
    by (simp add: send_command_eq example_client_def route_def ROAP_def HDCP_def)
  have s23: "str_int 23 = ''23''"
    by (simp add: str_int_def str_nat.simps digit_def)
  have b: "command_message (Some ''a</session><session>b'') 23 =
     XML @ ''<command><session>a</session><session>b</session><type>HandleKeyInput</type><value>23</value></command>''"
    by (simp add: command_message_def str_opt_def s23)
  have c: "\<not> key_input_envelope ''a</session><session>b'' 23
       (command_message (Some ''a</session><session>b'') 23)"
    unfolding key_input_envelope_def read_injected_message
    by (simp add: child_text_def find_child_def)
  have d: "map_option (child_text ''session'')
     (read_xml (command_message (Some ''a</session><session>b'') 23)) = Some (Some ''a'')"
    unfolding read_injected_message
    by (simp add: child_text_def find_child_def)
  from a b d c show ?thesis by (intro conjI)
qed

text \<open>
  Claim C5. The dialect decides the path. Under \<^verbatim>\<open>hdcp\<close> every message type
  other than \<^verbatim>\<open>auth\<close> is rewritten to \<^verbatim>\<open>dtv_wifirc\<close> and \<^verbatim>\<open>auth\<close> stays;
  under \<^verbatim>\<open>roap\<close> the message type is kept. So a key-input or channel-change
  command is posted to \<^verbatim>\<open>dtv_wifirc\<close> under \<^verbatim>\<open>hdcp\<close> and to
  \<^verbatim>\<open>command\<close> otherwise; the request of \<^verbatim>\<open>_get_session_id\<close> (the
  authentication, or the display of the pairing key) is posted to \<^verbatim>\<open>auth\<close> under
  every dialect; and the data query is a GET of
  \<^verbatim>\<open>data?target=<query>&session=<session>\<close>, with the parameter \<^verbatim>\<open>target\<close>,
  under every dialect: the rewritten message type is not used for it.
\<close>

theorem dialect_paths:
  "(mt \<noteq> ''auth'' \<longrightarrow> route HDCP mt = ''dtv_wifirc'')
   \<and> route HDCP ''auth'' = ''auth''
   \<and> route ROAP mt = mt
   \<and> sent (snd (send_command env c s)) =
       sent s @ [Post (url (self s) @
                       (if protocol (self s) = HDCP then ''dtv_wifirc'' else ''command''))
                   (command_message (session (self s)) c) HEADER DEFAULT_TIMEOUT]
   \<and> sent (snd (change_channel env ch s)) =
       sent s @ [Post (url (self s) @
                       (if protocol (self s) = HDCP then ''dtv_wifirc'' else ''command''))
                   (channel_message (session (self s)) (ElementTree_tostring env ch))
                   HEADER DEFAULT_TIMEOUT]
   \<and> sent (snd (get_session_id env s)) =
       sent s @ [Post (url (self s) @ ''auth'')
                   (if truthy (access_token (self s))
                    then auth_message (str_opt (access_token (self s))) else KEY)
                   HEADER DEFAULT_TIMEOUT]
   \<and> sent (snd (query_data env q s)) =
       sent s @ [Get (url (self s) @ ''data?target='' @ q @ ''&session='' @
                      str_opt (session (self s)))
                   [(''target'', q)] HEADER DEFAULT_TIMEOUT]"
proof -
  have r1: "mt \<noteq> ''auth'' \<longrightarrow> route HDCP mt = ''dtv_wifirc''"
    by (simp add: route_HDCP)
  have r2: "route HDCP ''auth'' = ''auth''"
    by (rule route_auth)
  have r3: "route ROAP mt = mt"
    by (simp add: route_def ROAP_def HDCP_def)
  have rc: "route (protocol (self s)) ''command'' =
              (if protocol (self s) = HDCP then ''dtv_wifirc'' else ''command'')"
    by (simp add: route_def)
  have c1: "sent (snd (send_command env c s)) =
       sent s @ [Post (url (self s) @
                       (if protocol (self s) = HDCP then ''dtv_wifirc'' else ''command''))
                   (command_message (session (self s)) c) HEADER DEFAULT_TIMEOUT]"
    unfolding send_command_eq rc by simp
  have c2: "sent (snd (change_channel env ch s)) =
       sent s @ [Post (url (self s) @
                       (if protocol (self s) = HDCP then ''dtv_wifirc'' else ''command''))
                   (channel_message (session (self s)) (ElementTree_tostring env ch))
                   HEADER DEFAULT_TIMEOUT]"
    unfolding change_channel_eq rc by simp
  have c3: "sent (snd (query_data env q s)) =
       sent s @ [Get (url (self s) @ ''data?target='' @ q @ ''&session='' @
                      str_opt (session (self s)))
                   [(''target'', q)] HEADER DEFAULT_TIMEOUT]"
    by (simp add: query_data_eq Let_def split: option.splits)
  from r1 r2 r3 c1 c2 get_session_id_sent [of env s] c3 show ?thesis
    by (intro conjI)
qed

theorem dialect_paths_witness:
  "''command'' \<noteq> ''auth'' \<and> route HDCP ''command'' = ''dtv_wifirc'' \<and>
   sent (snd (send_command (tv_stub 200 []) 23
                \<lparr>self = example_client (Some ''492781'') HDCP (Some ''839204''), sent = []\<rparr>)) =
     [Post ''http://tv:8080/hdcp/api/dtv_wifirc'' (command_message (Some ''839204'') 23)
        HEADER DEFAULT_TIMEOUT] \<and>
   sent (snd (send_command (tv_stub 200 []) 23
                \<lparr>self = example_client (Some ''492781'') ROAP (Some ''839204''), sent = []\<rparr>)) =
     [Post ''http://tv:8080/roap/api/command'' (command_message (Some ''839204'') 23)
        HEADER DEFAULT_TIMEOUT] \<and>
   sent (snd (get_session_id (tv_stub 200 [])
                \<lparr>self = example_client (Some ''492781'') HDCP None, sent = []\<rparr>)) =
     [Post ''http://tv:8080/hdcp/api/auth'' (auth_message ''492781'') HEADER DEFAULT_TIMEOUT] \<and>
   sent (snd (query_data (tv_stub 200 []) ''cur_channel''
                \<lparr>self = example_client (Some ''492781'') HDCP (Some ''839204''), sent = []\<rparr>)) =
     [Get ''http://tv:8080/hdcp/api/data?target=cur_channel&session=839204''
        [(''target'', ''cur_channel'')] HEADER DEFAULT_TIMEOUT]"
proof -
  let ?env = "tv_stub 200 []"
  let ?h = "\<lparr>self = example_client (Some ''492781'') HDCP (Some ''839204''), sent = []\<rparr>"
  let ?hn = "\<lparr>self = example_client (Some ''492781'') HDCP None, sent = []\<rparr>"
  let ?r = "\<lparr>self = example_client (Some ''492781'') ROAP (Some ''839204''), sent = []\<rparr>"
  have ne: "''command'' \<noteq> ''auth''" by simp
  have a: "route HDCP ''command'' = ''dtv_wifirc''"
    using dialect_paths [of "''command''" ?env 23 ?h "Element ''data'' [] None None []" "''cur_channel''"] ne by blast
  have b: "sent (snd (send_command ?env 23 ?h)) =
     [Post ''http://tv:8080/hdcp/api/dtv_wifirc'' (command_message (Some ''839204'') 23)
        HEADER DEFAULT_TIMEOUT]"
    using dialect_paths [of "''command''" ?env 23 ?h "Element ''data'' [] None None []" "''cur_channel''"]
    by (simp add: example_client_def HDCP_def)
  have c: "sent (snd (send_command ?env 23 ?r)) =
     [Post ''http://tv:8080/roap/api/command'' (command_message (Some ''839204'') 23)
        HEADER DEFAULT_TIMEOUT]"
    using dialect_paths [of "''command''" ?env 23 ?r "Element ''data'' [] None None []" "''cur_channel''"]
    by (simp add: example_client_def HDCP_def ROAP_def)
  have d: "sent (snd (get_session_id ?env ?hn)) =
     [Post ''http://tv:8080/hdcp/api/auth'' (auth_message ''492781'') HEADER DEFAULT_TIMEOUT]"
    using dialect_paths [of "''command''" ?env 23 ?hn "Element ''data'' [] None None []" "''cur_channel''"]
    by (simp add: example_client_def HDCP_def truthy_def str_opt_def)
  have e: "sent (snd (query_data ?env ''cur_channel'' ?h)) =
     [Get ''http://tv:8080/hdcp/api/data?target=cur_channel&session=839204''
        [(''target'', ''cur_channel'')] HEADER DEFAULT_TIMEOUT]"
    using dialect_paths [of "''command''" ?env 23 ?h "Element ''data'' [] None None []" "''cur_channel''"]
    by (simp add: example_client_def HDCP_def str_opt_def)
  from ne a b c d e show ?thesis by (intro conjI)
qed

text \<open>
  Claim C10. For every client that holds no session, \<^verbatim>\<open>send_command\<close> still
  posts an envelope, whose \<^verbatim>\<open>session\<close> child has the text \<^verbatim>\<open>None\<close>;
  \<^verbatim>\<open>query_data\<close> still issues a GET whose URL ends in \<^verbatim>\<open>&session=None\<close>;
  \<^verbatim>\<open>change_channel\<close> still posts its envelope, with \<^verbatim>\<open>None\<close> as session.
  A client holds no session when it has just been constructed and after it has left the
  context.
\<close>

theorem no_session_sends_None:
  assumes "session (self s) = None"
  shows "send_command env c s =
           (Inr None,
            s\<lparr>sent := sent s @
                   [Post (url (self s) @ route (protocol (self s)) ''command'')
                      (command_message None c) HEADER DEFAULT_TIMEOUT]\<rparr>)
         \<and> command_message None c =
             XML @ ''<command><session>None</session><type>HandleKeyInput</type><value>'' @
             str_int c @ ''</value></command>''
         \<and> map_option (child_text ''session'') (read_xml (command_message None c)) =
             Some (Some ''None'')
         \<and> sent (snd (query_data env q s)) =
             sent s @ [Get (url (self s) @ ''data?target='' @ q @ ''&session=None'')
                         [(''target'', q)] HEADER DEFAULT_TIMEOUT]
         \<and> sent (snd (change_channel env ch s)) =
             sent s @ [Post (url (self s) @ route (protocol (self s)) ''command'')
                         (XML @ ''<command><session>None</session><type>HandleChannelChange</type>'' @
                          ElementTree_tostring env ch @ ''</command>'') HEADER DEFAULT_TIMEOUT]
         \<and> map_sum id session (init host token proto) = Inr None
         \<and> session (self (snd (exit_client s'))) = None"
proof -
  have a: "send_command env c s =
           (Inr None,
            s\<lparr>sent := sent s @
                   [Post (url (self s) @ route (protocol (self s)) ''command'')
                      (command_message None c) HEADER DEFAULT_TIMEOUT]\<rparr>)"
    unfolding send_command_eq assms by (rule refl)
  have b: "command_message None c =
             XML @ ''<command><session>None</session><type>HandleKeyInput</type><value>'' @
             str_int c @ ''</value></command>''"
    by (simp add: command_message_def str_opt_def)
  have r: "map_option (child_text ''session'') (read_xml (command_message None c)) =
             Some (Some ''None'')"
    unfolding read_command_message_None by (simp add: child_text_def find_child_def)
  have d: "sent (snd (query_data env q s)) =
             sent s @ [Get (url (self s) @ ''data?target='' @ q @ ''&session=None'')
                         [(''target'', q)] HEADER DEFAULT_TIMEOUT]"
    by (simp add: query_data_eq Let_def assms str_opt_def split: option.splits)
  have e: "sent (snd (change_channel env ch s)) =
             sent s @ [Post (url (self s) @ route (protocol (self s)) ''command'')
                         (XML @ ''<command><session>None</session><type>HandleChannelChange</type>'' @
                          ElementTree_tostring env ch @ ''</command>'') HEADER DEFAULT_TIMEOUT]"
    by (simp add: change_channel_eq channel_message_def assms str_opt_def)
  have f: "map_sum id session (init host token proto) = Inr None"
    by (simp add: init_eq)
  have g: "session (self (snd (exit_client s'))) = None"
    by (simp add: exit_client_def set_session_def)
  from a b r d e f g show ?thesis by (intro conjI)
qed

theorem no_session_sends_None_witness:
  "session (self \<lparr>self = example_client (Some ''492781'') ROAP None, sent = []\<rparr>) = None \<and>
   init ''tv'' (Some ''492781'') ROAP = Inr (example_client (Some ''492781'') ROAP None) \<and>
   send_command (tv_stub 200 []) 23
     \<lparr>self = example_client (Some ''492781'') ROAP None, sent = []\<rparr> =
     (Inr None,
      \<lparr>self = example_client (Some ''492781'') ROAP None,
       sent = [Post ''http://tv:8080/roap/api/command''
                 (XML @ ''<command><session>None</session><type>HandleKeyInput</type><value>23</value></command>'')
                 HEADER DEFAULT_TIMEOUT]\<rparr>) \<and>
   sent (snd (query_data (tv_stub 200 []) ''volume_info''
     \<lparr>self = example_client (Some ''492781'') ROAP None, sent = []\<rparr>)) =
     [Get ''http://tv:8080/roap/api/data?target=volume_info&session=None''
        [(''target'', ''volume_info'')] HEADER DEFAULT_TIMEOUT]"
proof -
  let ?s = "\<lparr>self = example_client (Some ''492781'') ROAP None, sent = []\<rparr>"
  have h: "session (self ?s) = None"
    by (simp add: example_client_def)
  have i: "init ''tv'' (Some ''492781'') ROAP = Inr (example_client (Some ''492781'') ROAP None)"
    by (simp add: init_eq example_client_def)
  have s23: "str_int 23 = ''23''"
    by (simp add: str_int_def str_nat.simps digit_def)
  note t = no_session_sends_None [OF h, where env = "tv_stub 200 []" and c = 23
      and q = "''volume_info''"]
  have a: "send_command (tv_stub 200 []) 23 ?s =
     (Inr None,
      \<lparr>self = example_client (Some ''492781'') ROAP None,
       sent = [Post ''http://tv:8080/roap/api/command''
                 (XML @ ''<command><session>None</session><type>HandleKeyInput</type><value>23</value></command>'')
                 HEADER DEFAULT_TIMEOUT]\<rparr>)"
    using t by (simp add: example_client_def route_def ROAP_def HDCP_def s23)
  have b: "sent (snd (query_data (tv_stub 200 []) ''volume_info'' ?s)) =
     [Get ''http://tv:8080/roap/api/data?target=volume_info&session=None''
        [(''target'', ''volume_info'')] HEADER DEFAULT_TIMEOUT]"
    using t by (simp add: example_client_def ROAP_def)
  from h i a b show ?thesis by (intro conjI)
qed

text \<open>
  Claim C9, as amended. Leaving the context issues no request and clears the session.
  A command sent after that is not rejected: \<^verbatim>\<open>send_command\<close> returns normally
  and has posted an envelope whose session is the string \<^verbatim>\<open>None\<close>.
\<close>

theorem command_after_exit_is_sent:
  "exit_client s = (Inr (), s\<lparr>self := (self s)\<lparr>session := None\<rparr>\<rparr>)
   \<and> send_command env c (snd (exit_client s)) =
       (Inr None,
        s\<lparr>self := (self s)\<lparr>session := None\<rparr>,
          sent := sent s @
            [Post (url (self s) @ route (protocol (self s)) ''command'')
               (XML @ ''<command><session>None</session><type>HandleKeyInput</type><value>'' @
                str_int c @ ''</value></command>'') HEADER DEFAULT_TIMEOUT]\<rparr>)"
  by (simp add: exit_client_def set_session_def send_command_eq command_message_def str_opt_def)

theorem command_after_exit_is_sent_witness:
  "send_command (tv_stub 200 []) 23
     (snd (exit_client \<lparr>self = example_client (Some ''492781'') ROAP (Some ''839204''), sent = []\<rparr>)) =
     (Inr None,
      \<lparr>self = example_client (Some ''492781'') ROAP None,
       sent = [Post ''http://tv:8080/roap/api/command''
                 (XML @ ''<command><session>None</session><type>HandleKeyInput</type><value>23</value></command>'')
                 HEADER DEFAULT_TIMEOUT]\<rparr>)"
proof -
  have s23: "str_int 23 = ''23''"
    by (simp add: str_int_def str_nat.simps digit_def)
  show ?thesis
    using command_after_exit_is_sent [where s = "\<lparr>self = example_client (Some ''492781'') ROAP (Some ''839204''), sent = []\<rparr>"
        and env = "tv_stub 200 []" and c = 23]
    by (simp add: example_client_def route_def ROAP_def HDCP_def s23 exit_client_def set_session_def)
qed

text \<open>
  The claim as stated fails: after leaving the context, the command of the example
  raises nothing, and one request has been sent. The module has no check for a held
  session and no exception for its absence.
\<close>

theorem command_after_exit_counterexample:
  "\<not> isl (fst (send_command (tv_stub 200 []) 23
     (snd (exit_client \<lparr>self = example_client (Some ''492781'') ROAP (Some ''839204''), sent = []\<rparr>)))) \<and>
   sent (snd (send_command (tv_stub 200 []) 23
     (snd (exit_client \<lparr>self = example_client (Some ''492781'') ROAP (Some ''839204''), sent = []\<rparr>)))) =
     [Post ''http://tv:8080/roap/api/command'' (command_message None 23) HEADER DEFAULT_TIMEOUT]"
  by (simp add: send_command_eq exit_client_def set_session_def example_client_def route_def
      ROAP_def HDCP_def)

section \<open>Queries and responses\<close>

text \<open>
  Claim C6. If the response to the query has status \<^verbatim>\<open>requests.codes.ok\<close> and
  its body parses to a tree, \<^verbatim>\<open>query_data\<close> returns the \<^verbatim>\<open>data\<close> elements
  of the whole tree (the root included, at every depth) in document order, and has
  issued exactly the GET request. When the tree has no \<^verbatim>\<open>data\<close> element the
  result is the empty list, not an error.
\<close>

theorem query_returns_data_in_document_order:
  assumes req: "req = Get (url (self s) @ ''data?target='' @ q @ ''&session='' @
                          str_opt (session (self s))) [(''target'', q)] HEADER DEFAULT_TIMEOUT"
    and status: "status_code (http env (sent s) req) = codes_ok"
    and body: "ElementTree_XML env (rtext (http env (sent s) req)) = Some tree"
  shows "query_data env q s =
           (Inr (Some (filter (\<lambda>e. tag e = ''data'') (document_order tree))),
            s\<lparr>sent := sent s @ [req]\<rparr>)
         \<and> (list_all (\<lambda>e. tag e \<noteq> ''data'') (document_order tree) \<longrightarrow>
              fst (query_data env q s) = Inr (Some []))"
proof -
  have a: "query_data env q s =
           (Inr (Some (filter (\<lambda>e. tag e = ''data'') (document_order tree))),
            s\<lparr>sent := sent s @ [req]\<rparr>)"
    using status body unfolding req
    by (simp add: query_data_eq Let_def foldl_append_single iter_document_order)
  have "filter (\<lambda>e. tag e = ''data'') (document_order tree) = []"
    if "list_all (\<lambda>e. tag e \<noteq> ''data'') (document_order tree)"
    using that by (simp add: list_all_iff filter_empty_conv)
  with a show ?thesis by simp
qed

theorem query_returns_data_in_document_order_witness:
  "fst (query_data (tv_stub 200 data_body) ''cur_channel''
          \<lparr>self = example_client (Some ''492781'') ROAP (Some ''839204''), sent = []\<rparr>) =
     Inr (Some [Element ''data'' [] (Some ''1'') None [],
                Element ''data'' [] (Some ''2'') None [],
                Element ''data'' [] (Some ''3'') None []]) \<and>
   fst (query_data (tv_stub 200 auth_body) ''cur_channel''
          \<lparr>self = example_client (Some ''492781'') ROAP (Some ''839204''), sent = []\<rparr>) =
     Inr (Some [])"
proof -
  let ?s = "\<lparr>self = example_client (Some ''492781'') ROAP (Some ''839204''), sent = []\<rparr>"
  let ?req = "Get (url (self ?s) @ ''data?target='' @ ''cur_channel'' @ ''&session='' @
                str_opt (session (self ?s))) [(''target'', ''cur_channel'')] HEADER DEFAULT_TIMEOUT"
  have h1: "status_code (http (tv_stub 200 data_body) (sent ?s) ?req) = codes_ok"
    by (simp add: tv_stub_def codes_ok_def)
  have h2: "ElementTree_XML (tv_stub 200 data_body)
              (rtext (http (tv_stub 200 data_body) (sent ?s) ?req)) =
     Some (Element ''envelope'' [] None None
       [Element ''data'' [] (Some ''1'') None [],
        Element ''group'' [] None None
         [Element ''data'' [] (Some ''2'') None [],
          Element ''inner'' [] None None
           [Element ''data'' [] (Some ''3'') None []]]])"
    by (simp add: tv_stub_def read_data_body)
  have k1: "status_code (http (tv_stub 200 auth_body) (sent ?s) ?req) = codes_ok"
    by (simp add: tv_stub_def codes_ok_def)
  have k2: "ElementTree_XML (tv_stub 200 auth_body)
              (rtext (http (tv_stub 200 auth_body) (sent ?s) ?req)) =
     Some (Element ''envelope'' [] None None
       [Element ''ROAPError'' [] (Some ''200'') None [],
        Element ''ROAPErrorDetail'' [] (Some ''OK'') None [],
        Element ''session'' [] (Some ''839204'') None []])"
    by (simp add: tv_stub_def read_auth_body)
  have a: "fst (query_data (tv_stub 200 data_body) ''cur_channel'' ?s) =
     Inr (Some [Element ''data'' [] (Some ''1'') None [],
                Element ''data'' [] (Some ''2'') None [],
                Element ''data'' [] (Some ''3'') None []])"
    using query_returns_data_in_document_order [OF refl h1 h2] by simp
  have b: "fst (query_data (tv_stub 200 auth_body) ''cur_channel'' ?s) = Inr (Some [])"
    using query_returns_data_in_document_order [OF refl k1 k2] by simp
  from a b show ?thesis by (rule conjI)
qed

text \<open>
  Claim C7. If the status of the response to the query is not
  \<^verbatim>\<open>requests.codes.ok\<close>, \<^verbatim>\<open>query_data\<close> raises nothing and returns
  \<^verbatim>\<open>None\<close>. The body is not parsed: the result is the same with every parser,
  also with one that rejects every body.
\<close>

theorem query_non_ok_returns_None:
  assumes req: "req = Get (url (self s) @ ''data?target='' @ q @ ''&session='' @
                          str_opt (session (self s))) [(''target'', q)] HEADER DEFAULT_TIMEOUT"
    and status: "status_code (http env (sent s) req) \<noteq> codes_ok"
  shows "query_data (env\<lparr>ElementTree_XML := parser\<rparr>) q s =
           (Inr None, s\<lparr>sent := sent s @ [req]\<rparr>)"
  using status unfolding req
  by (simp add: query_data_eq Let_def)

theorem query_non_ok_returns_None_witness:
  "status_code (http (tv_stub 503 data_body) []
      (Get ''http://tv:8080/roap/api/data?target=cur_channel&session=839204''
         [(''target'', ''cur_channel'')] HEADER DEFAULT_TIMEOUT)) \<noteq> codes_ok \<and>
   query_data (tv_stub 503 data_body) ''cur_channel''
     \<lparr>self = example_client (Some ''492781'') ROAP (Some ''839204''), sent = []\<rparr> =
     (Inr None,
      \<lparr>self = example_client (Some ''492781'') ROAP (Some ''839204''),
       sent = [Get ''http://tv:8080/roap/api/data?target=cur_channel&session=839204''
                 [(''target'', ''cur_channel'')] HEADER DEFAULT_TIMEOUT]\<rparr>)"
proof -
  let ?s = "\<lparr>self = example_client (Some ''492781'') ROAP (Some ''839204''), sent = []\<rparr>"
  let ?env = "tv_stub 503 data_body"
  let ?req = "Get ''http://tv:8080/roap/api/data?target=cur_channel&session=839204''
         [(''target'', ''cur_channel'')] HEADER DEFAULT_TIMEOUT"
  have h1: "?req = Get (url (self ?s) @ ''data?target='' @ ''cur_channel'' @ ''&session='' @
                str_opt (session (self ?s))) [(''target'', ''cur_channel'')] HEADER DEFAULT_TIMEOUT"
    by (simp add: example_client_def ROAP_def str_opt_def)
  have h2: "status_code (http ?env (sent ?s) ?req) \<noteq> codes_ok"
    by (simp add: tv_stub_def codes_ok_def)
  have h2': "status_code (http ?env [] ?req) \<noteq> codes_ok"
    by (simp add: tv_stub_def codes_ok_def)
  have e: "?env\<lparr>ElementTree_XML := read_xml\<rparr> = ?env"
    by (simp add: tv_stub_def)
  have "query_data ?env ''cur_channel'' ?s = (Inr None, \<lparr>self = example_client (Some ''492781'') ROAP (Some ''839204''), sent = [?req]\<rparr>)"
    using query_non_ok_returns_None [OF h1 h2, of read_xml] unfolding e by simp
  with h2' show ?thesis by (rule conjI)
qed

text \<open>
  Claim C8, as amended. \<^verbatim>\<open>send_command\<close> and \<^verbatim>\<open>change_channel\<close> never
  look at the response: whatever the television \<open>tv\<close> answers, with whatever status,
  they raise nothing, issue their one POST and return \<^verbatim>\<open>None\<close>.
  \<^verbatim>\<open>_send_to_tv\<close> hands the raw response to them, and they drop it. Only
  \<^verbatim>\<open>query_data\<close> depends on the status: it returns \<^verbatim>\<open>None\<close> exactly when
  the status is not \<^verbatim>\<open>requests.codes.ok\<close>.
\<close>

theorem sends_do_not_inspect_status:
  "send_command (env\<lparr>http := tv\<rparr>) c s =
     (Inr None,
      s\<lparr>sent := sent s @
             [Post (url (self s) @ route (protocol (self s)) ''command'')
                (command_message (session (self s)) c) HEADER DEFAULT_TIMEOUT]\<rparr>)
   \<and> change_channel (env\<lparr>http := tv\<rparr>) ch s =
     (Inr None,
      s\<lparr>sent := sent s @
             [Post (url (self s) @ route (protocol (self s)) ''command'')
                (channel_message (session (self s)) (ElementTree_tostring env ch))
                HEADER DEFAULT_TIMEOUT]\<rparr>)
   \<and> fst (send_to_tv (env\<lparr>http := tv\<rparr>) ''command''
            (Some (command_message (session (self s)) c)) None s) =
     Inr (tv (sent s)
            (Post (url (self s) @ route (protocol (self s)) ''command'')
               (command_message (session (self s)) c) HEADER DEFAULT_TIMEOUT))
   \<and> (fst (query_data (env\<lparr>http := tv\<rparr>) q s) = Inr None) =
     (status_code (tv (sent s)
        (Get (url (self s) @ ''data?target='' @ q @ ''&session='' @ str_opt (session (self s)))
           [(''target'', q)] HEADER DEFAULT_TIMEOUT)) \<noteq> codes_ok)"
proof -
  have a: "send_command (env\<lparr>http := tv\<rparr>) c s =
     (Inr None,
      s\<lparr>sent := sent s @
             [Post (url (self s) @ route (protocol (self s)) ''command'')
                (command_message (session (self s)) c) HEADER DEFAULT_TIMEOUT]\<rparr>)"
    by (rule send_command_eq)
  have b: "change_channel (env\<lparr>http := tv\<rparr>) ch s =
     (Inr None,
      s\<lparr>sent := sent s @
             [Post (url (self s) @ route (protocol (self s)) ''command'')
                (channel_message (session (self s)) (ElementTree_tostring env ch))
                HEADER DEFAULT_TIMEOUT]\<rparr>)"
    by (simp add: change_channel_eq)
  have c: "fst (send_to_tv (env\<lparr>http := tv\<rparr>) ''command''
            (Some (command_message (session (self s)) c)) None s) =
     Inr (tv (sent s)
            (Post (url (self s) @ route (protocol (self s)) ''command'')
               (command_message (session (self s)) c) HEADER DEFAULT_TIMEOUT))"
    unfolding command_message_def by (simp add: send_to_tv_post_XML)
  have d: "(fst (query_data (env\<lparr>http := tv\<rparr>) q s) = Inr None) =
     (status_code (tv (sent s)
        (Get (url (self s) @ ''data?target='' @ q @ ''&session='' @ str_opt (session (self s)))
           [(''target'', q)] HEADER DEFAULT_TIMEOUT)) \<noteq> codes_ok)"
    by (simp add: query_data_None_iff)
  from a b c d show ?thesis by (intro conjI)
qed

theorem sends_do_not_inspect_status_witness:
  "send_command (tv_stub 500 []) 23
     \<lparr>self = example_client (Some ''492781'') ROAP (Some ''839204''), sent = []\<rparr> =
     (Inr None,
      \<lparr>self = example_client (Some ''492781'') ROAP (Some ''839204''),
       sent = [Post ''http://tv:8080/roap/api/command'' (command_message (Some ''839204'') 23)
                 HEADER DEFAULT_TIMEOUT]\<rparr>) \<and>
   change_channel (tv_stub 500 []) (Element ''data'' [] None None [Element ''major'' [] (Some ''7'') None []])
     \<lparr>self = example_client (Some ''492781'') ROAP (Some ''839204''), sent = []\<rparr> =
     (Inr None,
      \<lparr>self = example_client (Some ''492781'') ROAP (Some ''839204''),
       sent = [Post ''http://tv:8080/roap/api/command''
                 (channel_message (Some ''839204'') ''<data><major>7</major></data>'')
                 HEADER DEFAULT_TIMEOUT]\<rparr>)"
proof -
  let ?s = "\<lparr>self = example_client (Some ''492781'') ROAP (Some ''839204''), sent = []\<rparr>"
  let ?ch = "Element ''data'' [] None None [Element ''major'' [] (Some ''7'') None []]"
  have e: "(tv_stub 500 [])\<lparr>http := http (tv_stub 500 [])\<rparr> = tv_stub 500 []"
    by simp
  note t = sends_do_not_inspect_status [where env = "tv_stub 500 []" and tv = "http (tv_stub 500 [])"
      and c = 23 and s = ?s and ch = ?ch and q = "''cur_channel''", unfolded e]
  have w: "ElementTree_tostring (tv_stub 500 []) ?ch = ''<data><major>7</major></data>''"
    by (simp add: tv_stub_def)
  have a: "send_command (tv_stub 500 []) 23 ?s =
     (Inr None,
      \<lparr>self = example_client (Some ''492781'') ROAP (Some ''839204''),
       sent = [Post ''http://tv:8080/roap/api/command'' (command_message (Some ''839204'') 23)
                 HEADER DEFAULT_TIMEOUT]\<rparr>)"
    using t by (simp add: example_client_def route_def ROAP_def HDCP_def)
  have b: "change_channel (tv_stub 500 []) ?ch ?s =
     (Inr None,
      \<lparr>self = example_client (Some ''492781'') ROAP (Some ''839204''),
       sent = [Post ''http://tv:8080/roap/api/command''
                 (channel_message (Some ''839204'') ''<data><major>7</major></data>'')
                 HEADER DEFAULT_TIMEOUT]\<rparr>)"
    using t unfolding w by (simp add: example_client_def route_def ROAP_def HDCP_def)
  from a b show ?thesis by (rule conjI)
qed

text \<open>
  The claim as stated fails in one part: the caller of \<^verbatim>\<open>send_command\<close> or of
  \<^verbatim>\<open>change_channel\<close> does not receive the response of the transport. Neither
  method has a \<^verbatim>\<open>return\<close> statement.
\<close>

theorem send_command_returns_response_counterexample:
  "fst (send_command (tv_stub 500 []) 23
          \<lparr>self = example_client (Some ''492781'') ROAP (Some ''839204''), sent = []\<rparr>) \<noteq>
     Inr (Some (http (tv_stub 500 []) []
                  (Post ''http://tv:8080/roap/api/command''
                     (command_message (Some ''839204'') 23) HEADER DEFAULT_TIMEOUT))) \<and>
   fst (change_channel (tv_stub 500 []) (Element ''data'' [] None None [])
          \<lparr>self = example_client (Some ''492781'') ROAP (Some ''839204''), sent = []\<rparr>) \<noteq>
     Inr (Some (http (tv_stub 500 []) []
                  (Post ''http://tv:8080/roap/api/command''
                     (channel_message (Some ''839204'') ''<data></data>'') HEADER DEFAULT_TIMEOUT)))"
  by (simp add: send_command_eq change_channel_eq)

end
